theory Spec2Isabelle
  imports
    Complex_Main
    "HOL-Library.Char_ord"
    "HOL-Library.List_Lexorder"
    "HOL-Library.Multiset"
    "HOL-Library.Sublist"
begin

section \<open>Movie ratings dashboard: the filter-and-aggregate pipeline of \<open>app.py\<close>\<close>

text \<open>
  The script loads a table of ratings, reads three sidebar widgets (an age range, a list of
  occupations, a list of genders), filters the table and renders four aggregate views.
  The table is a list of rows in file order. Strings are compared as Python compares them,
  character by character (\<open>Char_ord\<close>, \<open>List_Lexorder\<close>).

  Every column holds a value in every row, except \<open>genres\<close>: \<open>pd.read_csv\<close> reads an
  empty field as a missing value, and the script itself has a branch ("No genre data
  available") that only rows with missing genres can reach. A missing \<open>genres\<close> field is
  \<open>None\<close>. Ratings are integers; a mean rating is the exact quotient, a rational number,
  where pandas computes its nearest double.
\<close>

subsection \<open>The table\<close>

record row =
  user_id :: int
  age :: int
  gender :: string
  occupation :: string
  title :: string
  genres :: "string option"
  year :: int
  rating :: int

type_synonym dataframe = "row list"

datatype error = ValueError | StreamlitAPIException | AttributeError

subsection \<open>Columns, element-wise comparison, boolean indexing\<close>

text \<open>
  \<open>df['age'] >= v\<close>, \<open>df['age'] <= v\<close>, \<open>a & b\<close> and \<open>s.isin(values)\<close> work
  element by element on a column and give a column of booleans; \<open>df[mask]\<close> keeps the rows
  whose mask entry is true, in their order.
\<close>

definition series_ge :: "int list \<Rightarrow> int \<Rightarrow> bool list" where
  "series_ge s v = map (\<lambda>a. v \<le> a) s"

definition series_le :: "int list \<Rightarrow> int \<Rightarrow> bool list" where
  "series_le s v = map (\<lambda>a. a \<le> v) s"

definition series_and :: "bool list \<Rightarrow> bool list \<Rightarrow> bool list" where
  "series_and a b = map (\<lambda>(p, q). p \<and> q) (zip a b)"

definition isin :: "'a list \<Rightarrow> 'a list \<Rightarrow> bool list" where
  "isin s vals = map (\<lambda>x. x \<in> set vals) s"

definition boolean_index :: "'a list \<Rightarrow> bool list \<Rightarrow> 'a list" where
  "boolean_index df bs = map fst (filter snd (zip df bs))"

subsection \<open>The filter (lines 63 to 65)\<close>

definition filtered_df :: "int \<times> int \<Rightarrow> string list \<Rightarrow> string list \<Rightarrow> dataframe \<Rightarrow> dataframe" where
  "filtered_df age_range occupations genders df =
     (let f1 = boolean_index df
                 (series_and (series_ge (map age df) (fst age_range))
                             (series_le (map age df) (snd age_range)));
          f2 = boolean_index f1 (isin (map occupation f1) occupations);
          f3 = boolean_index f2 (isin (map gender f2) genders)
      in f3)"

definition passes :: "int \<times> int \<Rightarrow> string list \<Rightarrow> string list \<Rightarrow> row \<Rightarrow> bool" where
  "passes age_range occupations genders r \<longleftrightarrow>
     fst age_range \<le> age r \<and> age r \<le> snd age_range \<and>
     occupation r \<in> set occupations \<and> gender r \<in> set genders"

subsection \<open>Python and pandas primitives\<close>

text \<open>
  \<open>Series.unique()\<close> lists the distinct values of a column in the order of their first
  appearance. Python's \<open>min\<close> and \<open>max\<close> raise \<open>ValueError\<close> on an empty list, and
  \<open>sorted\<close> sorts ascending. \<open>s.split('|')\<close> cuts a string at every separator, so that it
  always gives at least one piece, also for the empty string.
\<close>

fun unique :: "'a list \<Rightarrow> 'a list" where
  "unique [] = []"
| "unique (x # xs) = x # unique (filter (\<lambda>y. y \<noteq> x) xs)"

fun py_min :: "int list \<Rightarrow> error + int" where
  "py_min [] = Inl ValueError"
| "py_min (x # xs) = Inr (fold min xs x)"

fun py_max :: "int list \<Rightarrow> error + int" where
  "py_max [] = Inl ValueError"
| "py_max (x # xs) = Inr (fold max xs x)"

fun str_split :: "char \<Rightarrow> string \<Rightarrow> string list" where
  "str_split d [] = [[]]"
| "str_split d (c # cs) =
     (if c = d then [] # str_split d cs
      else (case str_split d cs of
              w # ws \<Rightarrow> (c # w) # ws
            | [] \<Rightarrow> [[c]]))"

subsection \<open>Default selection and session state (lines 23 to 40)\<close>

definition unique_ages :: "dataframe \<Rightarrow> int list" where
  "unique_ages df = sort (unique (map age df))"

definition default_age_range :: "dataframe \<Rightarrow> error + (int \<times> int)" where
  "default_age_range df =
     (case py_min (unique_ages df) of
        Inl e \<Rightarrow> Inl e
      | Inr lo \<Rightarrow>
          (case py_max (unique_ages df) of
             Inl e \<Rightarrow> Inl e
           | Inr hi \<Rightarrow> Inr (lo, hi)))"

definition default_occupations :: "dataframe \<Rightarrow> string list" where
  "default_occupations df = unique (map occupation df)"

definition default_genders :: "dataframe \<Rightarrow> string list" where
  "default_genders df = unique (map gender df)"

text \<open>
  \<open>st.session_state\<close> is a dictionary with the three keys the script uses; a key that is
  not in it yet is \<open>None\<close>.
\<close>

record session_state =
  ss_age_range :: "(int \<times> int) option"
  ss_occupations :: "string list option"
  ss_genders :: "string list option"

text \<open>Lines 28 to 33: a key that is missing gets its default.\<close>

definition init_session_state ::
    "int \<times> int \<Rightarrow> string list \<Rightarrow> string list \<Rightarrow> session_state \<Rightarrow> session_state" where
  "init_session_state d_age d_occ d_gen ss =
     \<lparr>ss_age_range = Some (case ss_age_range ss of None \<Rightarrow> d_age | Some v \<Rightarrow> v),
      ss_occupations = Some (case ss_occupations ss of None \<Rightarrow> d_occ | Some v \<Rightarrow> v),
      ss_genders = Some (case ss_genders ss of None \<Rightarrow> d_gen | Some v \<Rightarrow> v)\<rparr>"

text \<open>Lines 35 to 38: the callback of the "Clear All Filters" button.\<close>

definition clear_filters ::
    "int \<times> int \<Rightarrow> string list \<Rightarrow> string list \<Rightarrow> session_state \<Rightarrow> session_state" where
  "clear_filters d_age d_occ d_gen ss =
     ss\<lparr>ss_age_range := Some d_age, ss_occupations := Some d_occ, ss_genders := Some d_gen\<rparr>"



subsection \<open>Grouping and aggregation\<close>

text \<open>
  \<open>groupby(key).agg(mean_rating=('rating', 'mean'), count=('rating', 'count'))\<close> makes one
  row per distinct key, in ascending key order (\<open>sort=True\<close> is the default), and leaves
  out the rows whose key is missing. \<open>explode\<close> repeats a row once per piece of its list;
  a row whose list is missing stays once, with a missing value.
\<close>

record 'k agg_row =
  group_key :: 'k
  mean_rating :: rat
  count' :: nat

definition mean :: "int list \<Rightarrow> rat" where
  "mean xs = of_int (sum_list xs) / of_int (int (length xs))"

definition groupby_agg :: "('r \<Rightarrow> 'k::linorder option) \<Rightarrow> ('r \<Rightarrow> int) \<Rightarrow> 'r list \<Rightarrow> 'k agg_row list" where
  "groupby_agg keyf val rows =
     map (\<lambda>k. let g = filter (\<lambda>r. keyf r = Some k) rows
              in \<lparr>group_key = k, mean_rating = mean (map val g), count' = length g\<rparr>)
         (sort (unique (List.map_filter keyf rows)))"

definition explode_genre :: "dataframe \<Rightarrow> (string option \<times> row) list" where
  "explode_genre df =
     concat (map (\<lambda>r. case genres r of
                         None \<Rightarrow> [(None, r)]
                       | Some s \<Rightarrow> map (\<lambda>g. (Some g, r)) (str_split CHR ''|'' s)) df)"

text \<open>
  \<open>value_counts()\<close> counts every distinct value that is not missing and lists the counts
  in descending order. The order among equal counts is the library's; here it is the order
  of first appearance.
\<close>

definition value_counts :: "'a option list \<Rightarrow> ('a \<times> nat) list" where
  "value_counts xs =
     sort_key (\<lambda>(k, c). - int c)
       (map (\<lambda>k. (k, count_list xs (Some k))) (unique (List.map_filter id xs)))"

subsection \<open>The four views (lines 77 to 128)\<close>

text \<open>
  \<open>sort_values('mean_rating', ascending=False)\<close> is called with the library's default
  algorithm (\<open>kind='quicksort'\<close>), which pandas documents as not stable: it returns the
  rows in descending order of the mean and promises nothing about rows with equal means.
  The routine is a parameter of the views, and \<open>sorts_desc\<close> is what is known of it.
\<close>

type_synonym sorter = "string agg_row list \<Rightarrow> string agg_row list"

definition sorts_desc :: "sorter \<Rightarrow> bool" where
  "sorts_desc sort_values \<longleftrightarrow>
     (\<forall>xs. mset (sort_values xs) = mset xs \<and>
           sorted_wrt (\<lambda>a b. mean_rating b \<le> mean_rating a) (sort_values xs))"

datatype element =
    Warning string
  | Bar_chart "(string \<times> nat) list"
  | Barplot "string agg_row list"
  | Line_plot "(int \<times> rat) list"
  | Dataframe "string agg_row list"

definition genre_counts :: "dataframe \<Rightarrow> (string \<times> nat) list" where
  "genre_counts fdf = value_counts (map fst (explode_genre fdf))"

definition genre_breakdown :: "dataframe \<Rightarrow> element" where
  "genre_breakdown fdf =
     (if fdf = [] then Warning ''No data available for the selected filters.''
      else if genre_counts fdf = [] then Warning ''No genre data available for the selected filters.''
      else Bar_chart (genre_counts fdf))"

definition genre_agg :: "dataframe \<Rightarrow> string agg_row list" where
  "genre_agg fdf = groupby_agg fst (\<lambda>(g, r). rating r) (explode_genre fdf)"

definition genre_grouped :: "dataframe \<Rightarrow> string agg_row list" where
  "genre_grouped fdf = filter (\<lambda>g. 50 \<le> count' g) (genre_agg fdf)"

definition genre_satisfaction :: "sorter \<Rightarrow> dataframe \<Rightarrow> element" where
  "genre_satisfaction sort_values fdf = Barplot (sort_values (genre_grouped fdf))"

definition year_agg :: "dataframe \<Rightarrow> int agg_row list" where
  "year_agg fdf = groupby_agg (\<lambda>r. Some (year r)) rating fdf"

definition year_grouped :: "dataframe \<Rightarrow> int agg_row list" where
  "year_grouped fdf = filter (\<lambda>g. 50 \<le> count' g) (year_agg fdf)"

definition yearly_trend :: "dataframe \<Rightarrow> element" where
  "yearly_trend fdf = Line_plot (map (\<lambda>g. (group_key g, mean_rating g)) (year_grouped fdf))"

definition movie_grouped :: "dataframe \<Rightarrow> string agg_row list" where
  "movie_grouped fdf = groupby_agg (\<lambda>r. Some (title r)) rating fdf"

definition top5 :: "sorter \<Rightarrow> nat \<Rightarrow> dataframe \<Rightarrow> string agg_row list" where
  "top5 sort_values n fdf = take 5 (sort_values (filter (\<lambda>g. n \<le> count' g) (movie_grouped fdf)))"

definition top5_50 :: "sorter \<Rightarrow> dataframe \<Rightarrow> string agg_row list" where
  "top5_50 sort_values fdf = top5 sort_values 50 fdf"

definition top5_150 :: "sorter \<Rightarrow> dataframe \<Rightarrow> string agg_row list" where
  "top5_150 sort_values fdf = top5 sort_values 150 fdf"

subsection \<open>The library calls that can raise\<close>

text \<open>
  \<open>st.sidebar.slider(min_value, max_value, value, key)\<close> (lines 42 to 48): Streamlit
  refuses a slider whose \<open>min_value\<close> is not below its \<open>max_value\<close>, which is the case
  of a table in which every row has the same age. Otherwise the call gives back the value
  stored under the key: the pair the script stored at start or on reset, or the pair the
  user dragged, which lies within the bounds with its first component no greater than its
  second.

  \<open>st.sidebar.multiselect(options, default, key)\<close> (lines 49 to 60) raises when a
  default value is not one of the options, and gives back the list stored under the key.
  The user can deselect every option.

  \<open>.str\<close> (lines 82 and 97) exists on a column that holds strings. A \<open>genres\<close> column
  in which every field is missing was read as a column of numbers, and \<open>.str\<close> raises
  \<open>AttributeError\<close> on it, also when the column is empty. Boolean indexing keeps the type
  of a column, so it is the table that decides, not the filtered view; and line 97 runs on
  every view.
\<close>

definition slider :: "int \<Rightarrow> int \<Rightarrow> int \<times> int \<Rightarrow> error + (int \<times> int)" where
  "slider min_value max_value v =
     (if min_value < max_value then Inr v else Inl StreamlitAPIException)"

definition multiselect :: "string list \<Rightarrow> string list \<Rightarrow> error + string list" where
  "multiselect options default_value =
     (if list_all (\<lambda>x. x \<in> set options) default_value then Inr default_value
      else Inl StreamlitAPIException)"

definition str_accessor :: "dataframe \<Rightarrow> error + unit" where
  "str_accessor df =
     (if list_ex (\<lambda>r. genres r \<noteq> None) df then Inr () else Inl AttributeError)"

subsection \<open>One run of the script\<close>

record page =
  session :: session_state
  preview :: dataframe
  view1 :: element
  view2 :: element
  view3 :: element
  view4 :: "element \<times> element"

definition app :: "sorter \<Rightarrow> dataframe \<Rightarrow> session_state \<Rightarrow> error + page" where
  "app sort_values df ss =
     (case default_age_range df of
        Inl e \<Rightarrow> Inl e
      | Inr d_age \<Rightarrow>
          (let ss' = init_session_state d_age (default_occupations df) (default_genders df) ss
           in case slider (fst d_age) (snd d_age)
                     (case ss_age_range ss' of Some v \<Rightarrow> v | None \<Rightarrow> d_age) of
                Inl e \<Rightarrow> Inl e
              | Inr age_range \<Rightarrow>
           (case multiselect (sort (unique (map occupation df)))
                     (case ss_occupations ss' of Some v \<Rightarrow> v | None \<Rightarrow> default_occupations df) of
                Inl e \<Rightarrow> Inl e
              | Inr occupations \<Rightarrow>
           (case multiselect (sort (unique (map gender df)))
                     (case ss_genders ss' of Some v \<Rightarrow> v | None \<Rightarrow> default_genders df) of
                Inl e \<Rightarrow> Inl e
              | Inr genders \<Rightarrow>
           (let fdf = filtered_df age_range occupations genders df
            in case str_accessor df of
                 Inl e \<Rightarrow> Inl e
               | Inr _ \<Rightarrow>
                   Inr \<lparr>session = ss',
                        preview = take 100 fdf,
                        view1 = genre_breakdown fdf,
                        view2 = genre_satisfaction sort_values fdf,
                        view3 = yearly_trend fdf,
                        view4 = (Dataframe (top5_50 sort_values fdf),
                                 Dataframe (top5_150 sort_values fdf))\<rparr>)))))"

subsection \<open>Two sorting routines and the rows of the scenarios\<close>

text \<open>
  Two routines that meet \<open>sorts_desc\<close>. The first is what \<open>kind='stable'\<close> would do:
  rows with equal means stay in their order. The second sorts ascending and reverses, so
  that rows with equal means come out in the opposite order.
\<close>

definition sort_values_stable :: sorter where
  "sort_values_stable xs = rev (sort_key mean_rating (rev xs))"


definition row_A :: row where
  "row_A = \<lparr>user_id = 1, age = 25, gender = ''M'', occupation = ''engineer'', title = ''A'',
            genres = Some ''Action|Comedy'', year = 2000, rating = 4\<rparr>"

definition row_B :: row where
  "row_B = \<lparr>user_id = 2, age = 40, gender = ''F'', occupation = ''teacher'', title = ''B'',
            genres = Some ''Comedy'', year = 2000, rating = 2\<rparr>"

subsection \<open>Notions the properties are stated with\<close>

text \<open>The number of genre tags of a row; a row with no genre data has none.\<close>

definition n_tags :: "row \<Rightarrow> nat" where
  "n_tags r = (case genres r of None \<Rightarrow> 0 | Some s \<Rightarrow> length (str_split CHR ''|'' s))"

text \<open>The position at which a value first appears in a column.\<close>

definition first_index :: "'a list \<Rightarrow> 'a \<Rightarrow> nat" where
  "first_index xs a = length (takeWhile (\<lambda>x. x \<noteq> a) xs)"

text \<open>
  A ranking keeps ties in group order when, for every mean, the ranked rows with that mean
  stand in the order in which the groups list them.
\<close>

definition ties_in_group_order :: "'k agg_row list \<Rightarrow> 'k agg_row list \<Rightarrow> bool" where
  "ties_in_group_order grouped ranking \<longleftrightarrow>
     (\<forall>m. subseq (filter (\<lambda>g. mean_rating g = m) ranking) grouped)"



text \<open>A row whose \<open>genres\<close> field is empty in the file.\<close>

definition row_N :: row where
  "row_N = \<lparr>user_id = 3, age = 31, gender = ''F'', occupation = ''artist'', title = ''C'',
            genres = None, year = 1999, rating = 5\<rparr>"


section \<open>Properties of the filter\<close>

lemma boolean_index_map: "boolean_index xs (map P xs) = filter P xs"
  by (induction xs) (simp_all add: boolean_index_def)

lemma age_mask:
  "series_and (series_ge (map age df) lo) (series_le (map age df) hi)
     = map (\<lambda>r. lo \<le> age r \<and> age r \<le> hi) df"
  by (induction df) (simp_all add: series_and_def series_ge_def series_le_def)

lemma isin_map: "isin (map f xs) vals = map (\<lambda>r. f r \<in> set vals) xs"
  by (simp add: isin_def)

lemma filtered_df_filter:
  "filtered_df age_range occupations genders df = filter (passes age_range occupations genders) df"
proof -
  have "filtered_df age_range occupations genders df =
          filter (\<lambda>r. gender r \<in> set genders)
            (filter (\<lambda>r. occupation r \<in> set occupations)
              (filter (\<lambda>r. fst age_range \<le> age r \<and> age r \<le> snd age_range) df))"
    by (simp add: filtered_df_def Let_def age_mask isin_map boolean_index_map)
  also have "\<dots> = filter (passes age_range occupations genders) df"
    by (induction df) (auto simp add: passes_def)
  finally show ?thesis .
qed

text \<open>
  C1. A row is in the filtered view exactly when it is in the table, its age lies within the
  inclusive bounds, its occupation is among the selected occupations and its gender among
  the selected genders; the view is no longer than the table; and the \<open>genres\<close> field plays
  no part: rewriting the genres of every row and filtering gives the filtered rows with
  their genres rewritten.
\<close>

theorem filter_inclusion:
  "(r \<in> set (filtered_df (lo, hi) occupations genders df) \<longleftrightarrow>
      r \<in> set df \<and> lo \<le> age r \<and> age r \<le> hi \<and>
      occupation r \<in> set occupations \<and> gender r \<in> set genders)
   \<and> length (filtered_df (lo, hi) occupations genders df) \<le> length df
   \<and> filtered_df (lo, hi) occupations genders (map (genres_update g) df)
       = map (genres_update g) (filtered_df (lo, hi) occupations genders df)"
proof -
  have "filter (passes (lo, hi) occupations genders) (map (genres_update g) df)
          = map (genres_update g) (filter (passes (lo, hi) occupations genders) df)"
    by (induction df) (simp_all add: passes_def)
  then show ?thesis
    by (auto simp add: filtered_df_filter passes_def)
qed

text \<open>
  C10. The filtered view is a subsequence of the table: the rows kept stay in their
  original relative order, and no row occurs more often in the view than in the table.
\<close>

theorem filter_subsequence:
  "subseq (filtered_df age_range occupations genders df) df
   \<and> count_list (filtered_df age_range occupations genders df) r \<le> count_list df r"
proof -
  have "count_list (filter P xs) r \<le> count_list xs r" for P and xs :: "row list"
    by (induction xs) simp_all
  then show ?thesis
    by (simp add: filtered_df_filter)
qed


section \<open>Properties of grouping\<close>

lemma set_unique: "set (unique xs) = set xs"
  by (induction xs rule: unique.induct) auto

lemma distinct_unique: "distinct (unique xs)"
  by (induction xs rule: unique.induct) (auto simp add: set_unique)

lemma groupby_keys:
  "map group_key (groupby_agg keyf val rows) = sort (unique (List.map_filter keyf rows))"
  by (simp add: groupby_agg_def Let_def comp_def)

lemma groupby_keys_sorted: "sorted_wrt (<) (map group_key (groupby_agg keyf val rows))"
  by (simp add: groupby_keys distinct_unique strict_sorted_iff)

lemma groupby_count:
  "g \<in> set (groupby_agg keyf val rows) \<Longrightarrow>
     count' g = length (filter (\<lambda>r. keyf r = Some (group_key g)) rows)"
  by (auto simp add: groupby_agg_def Let_def)

lemma sorted_wrt_map_filter:
  "sorted_wrt (<) (map f xs) \<Longrightarrow> sorted_wrt (<) (map f (filter P xs))"
  by (induction xs) auto

lemma length_filter_mono:
  "(\<And>x. P x \<Longrightarrow> Q x) \<Longrightarrow> length (filter P xs) \<le> length (filter Q xs)"
  by (induction xs) auto

subsection \<open>The sorting routine\<close>

lemma length_sort_values: "sorts_desc sv \<Longrightarrow> length (sv xs) = length xs"
  unfolding sorts_desc_def by (metis size_mset)



lemma sorted_wrt_rev_sort_key:
  "sorted_wrt (\<lambda>a b. f b \<le> f a) (rev (sort_key f xs))"
proof -
  have "sorted (map f (sort_key f xs))" by simp
  then have "sorted_wrt (\<lambda>a b. f a \<le> f b) (sort_key f xs)"
    by (simp add: sorted_map)
  then show ?thesis by (simp add: sorted_wrt_rev)
qed

lemma sorts_desc_stable: "sorts_desc sort_values_stable"
  unfolding sorts_desc_def sort_values_stable_def
  by (simp add: sorted_wrt_rev_sort_key)


section \<open>The minimum-support threshold\<close>

text \<open>
  C2. Every genre group of GenreSatisfaction and every year group of YearlyTrend has a
  count of at least 50, and that count is the number of ratings that contribute to the
  group (exploded rows of that genre, rows of that year). The groups kept are among the
  groups of the same aggregation without the threshold line.
\<close>

theorem threshold_groups:
  "(\<forall>g \<in> set (genre_grouped fdf).
      50 \<le> count' g \<and>
      count' g = length (filter (\<lambda>e. fst e = Some (group_key g)) (explode_genre fdf)))
   \<and> (\<forall>g \<in> set (year_grouped fdf).
      50 \<le> count' g \<and> count' g = length (filter (\<lambda>r. year r = group_key g) fdf))
   \<and> set (genre_grouped fdf) \<subseteq> set (genre_agg fdf)
   \<and> set (year_grouped fdf) \<subseteq> set (year_agg fdf)"
proof -
  have genre: "count' g = length (filter (\<lambda>e. fst e = Some (group_key g)) (explode_genre fdf))"
    if "g \<in> set (genre_agg fdf)" for g
    using that unfolding genre_agg_def by (rule groupby_count)
  have yr: "count' g = length (filter (\<lambda>r. year r = group_key g) fdf)"
    if "g \<in> set (year_agg fdf)" for g
    using groupby_count [of g "\<lambda>r. Some (year r)" rating fdf] that
    by (simp add: year_agg_def)
  show ?thesis
    using genre yr by (auto simp add: genre_grouped_def year_grouped_def)
qed

theorem threshold_groups_witness:
  "genre_grouped (replicate 50 row_B) = [\<lparr>group_key = ''Comedy'', mean_rating = 2, count' = 50\<rparr>]
   \<and> year_grouped (replicate 50 row_B) = [\<lparr>group_key = 2000, mean_rating = 2, count' = 50\<rparr>]
   \<and> length (filter (\<lambda>e. fst e = Some ''Comedy'') (explode_genre (replicate 50 row_B))) = 50
   \<and> length (filter (\<lambda>r. year r = 2000) (replicate 50 row_B)) = 50
   \<and> genre_grouped [row_A, row_B] = []
   \<and> genre_agg [row_A, row_B] = [\<lparr>group_key = ''Action'', mean_rating = 4, count' = 1\<rparr>,
                                    \<lparr>group_key = ''Comedy'', mean_rating = 3, count' = 2\<rparr>]"
proof -
  have g: "genre_grouped (replicate 50 row_B) = [\<lparr>group_key = ''Comedy'', mean_rating = 2, count' = 50\<rparr>]"
    by code_simp
  have y: "year_grouped (replicate 50 row_B) = [\<lparr>group_key = 2000, mean_rating = 2, count' = 50\<rparr>]"
    by code_simp
  have s: "genre_grouped [row_A, row_B] = []"
    by code_simp
  have a: "genre_agg [row_A, row_B] = [\<lparr>group_key = ''Action'', mean_rating = 4, count' = 1\<rparr>,
                                    \<lparr>group_key = ''Comedy'', mean_rating = 3, count' = 2\<rparr>]"
    by code_simp
  from threshold_groups [of "replicate 50 row_B"] g y s a show ?thesis
    by simp
qed

section \<open>The yearly trend\<close>

text \<open>
  C7. The rows of YearlyTrend are in strictly ascending order of release year, and the
  line plot draws them in that order.
\<close>

theorem yearly_trend_chronological:
  "sorted_wrt (<) (map group_key (year_grouped fdf))
   \<and> yearly_trend fdf = Line_plot (map (\<lambda>g. (group_key g, mean_rating g)) (year_grouped fdf))"
proof -
  have "sorted_wrt (<) (map group_key (year_grouped fdf))"
    unfolding year_grouped_def year_agg_def
    by (rule sorted_wrt_map_filter) (rule groupby_keys_sorted)
  then show ?thesis
    by (simp add: yearly_trend_def)
qed

section \<open>The top-rated movies\<close>

text \<open>
  C6. Whatever routine sorts the rows in descending order of the mean, the ranking with the
  threshold 150 is no longer than the ranking with the threshold 50, and neither has more
  than 5 rows.
\<close>

theorem top5_lengths:
  assumes "sorts_desc sort_values"
  shows "length (top5_150 sort_values fdf) \<le> length (top5_50 sort_values fdf)
         \<and> length (top5_50 sort_values fdf) \<le> 5
         \<and> length (top5_150 sort_values fdf) \<le> 5"
proof -
  have "length (filter (\<lambda>g. 150 \<le> count' g) (movie_grouped fdf))
          \<le> length (filter (\<lambda>g. 50 \<le> count' g) (movie_grouped fdf))"
    by (rule length_filter_mono) simp
  then show ?thesis
    by (simp add: top5_150_def top5_50_def top5_def length_sort_values [OF assms])
qed

theorem top5_lengths_witness:
  "sorts_desc sort_values_stable
   \<and> length (top5_150 sort_values_stable (replicate 50 row_A @ replicate 50 row_B))
       \<le> length (top5_50 sort_values_stable (replicate 50 row_A @ replicate 50 row_B))
   \<and> top5_50 sort_values_stable (replicate 50 row_A @ replicate 50 row_B)
       = [\<lparr>group_key = ''A'', mean_rating = 4, count' = 50\<rparr>,
          \<lparr>group_key = ''B'', mean_rating = 2, count' = 50\<rparr>]
   \<and> top5_150 sort_values_stable (replicate 50 row_A @ replicate 50 row_B) = []"
proof -
  have a: "top5_50 sort_values_stable (replicate 50 row_A @ replicate 50 row_B)
       = [\<lparr>group_key = ''A'', mean_rating = 4, count' = 50\<rparr>,
          \<lparr>group_key = ''B'', mean_rating = 2, count' = 50\<rparr>]"
    by code_simp
  have b: "top5_150 sort_values_stable (replicate 50 row_A @ replicate 50 row_B) = []"
    by code_simp
  from top5_lengths [OF sorts_desc_stable, of "replicate 50 row_A @ replicate 50 row_B"]
    sorts_desc_stable a b
  show ?thesis by simp
qed


section \<open>The genre breakdown\<close>

lemma str_split_nonempty: "str_split d s \<noteq> []"
  by (induction s) (auto split: list.splits)

lemma n_tags_pos: "genres r \<noteq> None \<Longrightarrow> 1 \<le> n_tags r"
  using str_split_nonempty [of "CHR ''|''"]
  by (auto simp add: n_tags_def Suc_le_eq split: option.splits)

lemma count_list_Some_map_filter:
  "count_list xs (Some k) = count_list (List.map_filter id xs) k"
  by (induction xs) (auto simp add: List.map_filter_simps split: option.splits)

lemma length_map_filter_id:
  "length (List.map_filter id xs) = length (filter (\<lambda>x. x \<noteq> None) xs)"
  by (induction xs) (auto simp add: List.map_filter_simps split: option.splits)

lemma sum_count_unique: "sum_list (map (count_list ys) (unique ys)) = length ys"
proof -
  have "sum_list (map (count_list ys) (unique ys)) = sum (count_list ys) (set (unique ys))"
    by (simp add: sum_list_distinct_conv_sum_set distinct_unique)
  also have "\<dots> = length ys"
    by (simp add: set_unique sum_count_set)
  finally show ?thesis .
qed

lemma sum_value_counts:
  "sum_list (map snd (value_counts xs)) = length (filter (\<lambda>x. x \<noteq> None) xs)"
proof -
  let ?ys = "List.map_filter id xs"
  let ?l = "map (\<lambda>k. (k, count_list xs (Some k))) (unique ?ys)"
  have "sum_list (map snd (value_counts xs)) = sum_mset (image_mset snd (mset (value_counts xs)))"
    by (metis mset_map sum_mset_sum_list)
  also have "\<dots> = sum_mset (image_mset snd (mset ?l))"
    by (simp add: value_counts_def)
  also have "\<dots> = sum_list (map snd ?l)"
    by (metis mset_map sum_mset_sum_list)
  also have "\<dots> = sum_list (map (count_list ?ys) (unique ?ys))"
    by (simp add: comp_def count_list_Some_map_filter)
  also have "\<dots> = length (filter (\<lambda>x. x \<noteq> None) xs)"
    by (simp add: sum_count_unique length_map_filter_id)
  finally show ?thesis .
qed

lemma explode_genre_Nil: "explode_genre [] = []"
  by (simp add: explode_genre_def)

lemma explode_genre_Cons:
  "explode_genre (r # fdf) =
     (case genres r of
        None \<Rightarrow> [(None, r)]
      | Some s \<Rightarrow> map (\<lambda>g. (Some g, r)) (str_split CHR ''|'' s)) @ explode_genre fdf"
  by (simp add: explode_genre_def)

lemma explode_some_count:
  "length (filter (\<lambda>x. x \<noteq> None) (map fst (explode_genre fdf))) = sum_list (map n_tags fdf)"
proof (induction fdf)
  case Nil
  show ?case by (simp add: explode_genre_Nil)
next
  case (Cons r fdf)
  have "length (filter (\<lambda>x. x \<noteq> None)
          (map fst (case genres r of
                      None \<Rightarrow> [(None, r)]
                    | Some s \<Rightarrow> map (\<lambda>g. (Some g, r)) (str_split CHR ''|'' s)))) = n_tags r"
    by (cases "genres r") (simp_all add: n_tags_def comp_def)
  with Cons show ?case
    by (simp add: explode_genre_Cons)
qed

lemma sum_genre_counts: "sum_list (map snd (genre_counts fdf)) = sum_list (map n_tags fdf)"
  by (simp only: genre_counts_def sum_value_counts explode_some_count)

lemma sum_ge_length:
  "(\<forall>x \<in> set xs. 1 \<le> f x) \<Longrightarrow>
     length xs \<le> sum_list (map f xs) \<and>
     (sum_list (map f xs) = length xs \<longleftrightarrow> (\<forall>x \<in> set xs. f x = (1::nat)))"
  by (induction xs) (auto)

text \<open>
  C5, as amended. The counts of GenreBreakdown add up to the number of genre tags of the
  rows in the view, where a row with no genre data has no tag. When every row of the view
  has genre data, the sum is at least the number of rows, and it equals the number of rows
  exactly when every row has exactly one tag.
\<close>

theorem genre_counts_sum:
  "sum_list (map snd (genre_counts fdf)) = sum_list (map n_tags fdf)
   \<and> ((\<forall>r \<in> set fdf. genres r \<noteq> None) \<longrightarrow>
        length fdf \<le> sum_list (map snd (genre_counts fdf)) \<and>
        (sum_list (map snd (genre_counts fdf)) = length fdf \<longleftrightarrow> (\<forall>r \<in> set fdf. n_tags r = 1)))"
  using sum_ge_length [of fdf n_tags] n_tags_pos
  by (simp add: sum_genre_counts)

text \<open>
  C5 as stated fails on a view with a row that has no genre data: of two rows, one without
  genres and one tagged Comedy, the counts add up to 1.
\<close>

theorem genre_counts_sum_counterexample:
  "sum_list (map snd (genre_counts [row_N, row_B])) < length [row_N, row_B]"
  by code_simp

theorem genre_counts_sum_witness:
  "genres row_A \<noteq> None \<and> genres row_B \<noteq> None
   \<and> genre_counts [row_A, row_B] = [(''Comedy'', 2), (''Action'', 1)]
   \<and> length [row_A, row_B] \<le> sum_list (map snd (genre_counts [row_A, row_B]))
   \<and> n_tags row_A = 2
   \<and> sum_list (map snd (genre_counts [row_A, row_B])) \<noteq> length [row_A, row_B]
   \<and> sum_list (map snd (genre_counts [row_B])) = length [row_B] \<and> n_tags row_B = 1"
proof -
  have a: "genres row_A \<noteq> None" "genres row_B \<noteq> None"
    by (simp_all add: row_A_def row_B_def)
  have b: "genre_counts [row_A, row_B] = [(''Comedy'', 2), (''Action'', 1)]"
    by code_simp
  have c: "n_tags row_A = 2" "n_tags row_B = 1"
    by code_simp+
  from genre_counts_sum [of "[row_A, row_B]"] genre_counts_sum [of "[row_B]"] a b c
  show ?thesis by simp
qed



section \<open>Defaults and reset\<close>

lemma py_min_Min: "xs \<noteq> [] \<Longrightarrow> py_min xs = Inr (Min (set xs))"
proof (cases xs)
  case Nil
  assume "xs \<noteq> []"
  with Nil show ?thesis by simp
next
  case (Cons a list)
  have "fold min list a = Min (set (a # list))"
    by (rule Min.set_eq_fold [symmetric])
  with Cons show ?thesis by simp
qed

lemma py_max_Max: "xs \<noteq> [] \<Longrightarrow> py_max xs = Inr (Max (set xs))"
proof (cases xs)
  case Nil
  assume "xs \<noteq> []"
  with Nil show ?thesis by simp
next
  case (Cons a list)
  have "fold max list a = Max (set (a # list))"
    by (rule Max.set_eq_fold [symmetric])
  with Cons show ?thesis by simp
qed

lemma unique_Nil_iff: "unique xs = [] \<longleftrightarrow> xs = []"
  by (cases xs) simp_all

lemma default_age_range_eq:
  assumes "df \<noteq> []"
  shows "default_age_range df = Inr (Min (age ` set df), Max (age ` set df))"
proof -
  have ne: "unique_ages df \<noteq> []"
    using assms by (metis unique_ages_def unique_Nil_iff map_is_Nil_conv set_empty set_sort)
  have s: "set (unique_ages df) = age ` set df"
    by (simp add: unique_ages_def set_unique)
  show ?thesis
    by (simp add: default_age_range_def py_min_Min [OF ne] py_max_Max [OF ne] s)
qed

lemma default_age_range_Nil: "default_age_range [] = Inl ValueError"
  by (simp add: default_age_range_def unique_ages_def)

lemma first_index_Cons:
  "first_index (x # xs) a = (if x = a then 0 else Suc (first_index xs a))"
  by (simp add: first_index_def)

lemma first_index_filter_mono:
  "a \<noteq> x \<Longrightarrow> b \<noteq> x \<Longrightarrow>
   first_index (filter (\<lambda>y. y \<noteq> x) xs) a < first_index (filter (\<lambda>y. y \<noteq> x) xs) b \<Longrightarrow>
   first_index xs a < first_index xs b"
  by (induction xs) (auto simp add: first_index_Cons split: if_splits)

lemma unique_first_appearance:
  "sorted_wrt (\<lambda>a b. first_index xs a < first_index xs b) (unique xs)"
proof (induction xs rule: unique.induct)
  case 1
  show ?case by simp
next
  case (2 x xs)
  let ?ys = "filter (\<lambda>y. y \<noteq> x) xs"
  have "sorted_wrt (\<lambda>a b. first_index (x # xs) a < first_index (x # xs) b) (unique ?ys)"
  proof (rule sorted_wrt_mono_rel [OF _ "2.IH"])
    fix a b
    assume "a \<in> set (unique ?ys)" "b \<in> set (unique ?ys)"
      and lt: "first_index ?ys a < first_index ?ys b"
    then have "a \<noteq> x" "b \<noteq> x"
      by (auto simp add: set_unique)
    with lt first_index_filter_mono [of a x b xs]
    show "first_index (x # xs) a < first_index (x # xs) b"
      by (simp add: first_index_Cons)
  qed
  moreover have "\<forall>b \<in> set (unique ?ys). first_index (x # xs) x < first_index (x # xs) b"
    by (auto simp add: set_unique first_index_Cons)
  ultimately show ?case by simp
qed

lemma default_filter_all:
  "filtered_df (Min (age ` set df), Max (age ` set df)) (default_occupations df) (default_genders df) df = df"
proof -
  have "passes (Min (age ` set df), Max (age ` set df)) (default_occupations df) (default_genders df) r"
    if "r \<in> set df" for r
    using that by (simp add: passes_def default_occupations_def default_genders_def set_unique)
  then show ?thesis
    by (simp add: filtered_df_filter)
qed

text \<open>
  C9, as amended. For every table with at least one row the defaults exist: the age bounds
  are the least and the greatest age in the table, the occupations and the genders are the
  distinct values of their columns, each list in the order in which the values first
  appear in the table. The callback of the clear button sets the session to exactly these
  defaults, whatever it held before, and with them the filter keeps every row.
\<close>

theorem reset_gives_defaults:
  assumes "df \<noteq> []"
  shows "default_age_range df = Inr (Min (age ` set df), Max (age ` set df))
    \<and> clear_filters (Min (age ` set df), Max (age ` set df)) (default_occupations df) (default_genders df) ss
        = \<lparr>ss_age_range = Some (Min (age ` set df), Max (age ` set df)),
           ss_occupations = Some (default_occupations df),
           ss_genders = Some (default_genders df)\<rparr>
    \<and> set (default_occupations df) = occupation ` set df \<and> distinct (default_occupations df)
    \<and> set (default_genders df) = gender ` set df \<and> distinct (default_genders df)
    \<and> sorted_wrt (\<lambda>a b. first_index (map occupation df) a < first_index (map occupation df) b)
         (default_occupations df)
    \<and> sorted_wrt (\<lambda>a b. first_index (map gender df) a < first_index (map gender df) b)
         (default_genders df)
    \<and> filtered_df (Min (age ` set df), Max (age ` set df)) (default_occupations df) (default_genders df) df = df"
  using assms
  by (simp add: default_age_range_eq clear_filters_def default_occupations_def default_genders_def
      set_unique distinct_unique unique_first_appearance default_filter_all [unfolded default_occupations_def default_genders_def])


text \<open>
  C9 as stated fails on the order of the lists: in a table that lists a teacher before an
  engineer, the default occupations are teacher, engineer, which is not the lexicographic
  order. And a table without rows has no defaults: \<open>min\<close> of the empty list raises.
\<close>

theorem default_order_counterexample:
  "default_occupations [row_B, row_A] = [''teacher'', ''engineer'']
   \<and> \<not> sorted (default_occupations [row_B, row_A])
   \<and> default_age_range [] = Inl ValueError"
  by (simp add: default_occupations_def row_A_def row_B_def default_age_range_Nil)

theorem reset_gives_defaults_witness:
  "[row_B, row_A] \<noteq> []
   \<and> default_age_range [row_B, row_A] = Inr (25, 40)
   \<and> clear_filters (25, 40) [''teacher'', ''engineer''] [''F'', ''M'']
         \<lparr>ss_age_range = Some (30, 35), ss_occupations = Some [], ss_genders = None\<rparr>
        = \<lparr>ss_age_range = Some (25, 40), ss_occupations = Some [''teacher'', ''engineer''],
           ss_genders = Some [''F'', ''M'']\<rparr>
   \<and> default_occupations [row_B, row_A] = [''teacher'', ''engineer'']
   \<and> default_genders [row_B, row_A] = [''F'', ''M'']
   \<and> filtered_df (25, 40) [''teacher'', ''engineer''] [''F'', ''M''] [row_B, row_A] = [row_B, row_A]"
proof -
  have ne: "[row_B, row_A] \<noteq> []" by simp
  have m: "Min (age ` set [row_B, row_A]) = 25" "Max (age ` set [row_B, row_A]) = 40"
    by (simp_all add: row_A_def row_B_def)
  have o: "default_occupations [row_B, row_A] = [''teacher'', ''engineer'']"
    by (simp add: default_occupations_def row_A_def row_B_def)
  have g: "default_genders [row_B, row_A] = [''F'', ''M'']"
    by (simp add: default_genders_def row_A_def row_B_def)
  from reset_gives_defaults [OF ne,
      of "\<lparr>ss_age_range = Some (30, 35), ss_occupations = Some [], ss_genders = None\<rparr>"]
  show ?thesis
    unfolding m o g by simp
qed


subsection \<open>The order of a ranking\<close>



lemma stable_filter_mean:
  "filter (\<lambda>g. mean_rating g = m) (sort_values_stable xs) = filter (\<lambda>g. mean_rating g = m) xs"
proof -
  have "filter (\<lambda>g. mean_rating g = m) (sort_key mean_rating (rev xs))
          = filter (\<lambda>g. mean_rating g = m) (rev xs)"
    by (rule sort_key_stable)
  then show ?thesis
    by (simp add: sort_values_stable_def rev_filter [symmetric])
qed

lemma stable_keeps_ties: "ties_in_group_order xs (sort_values_stable xs)"
  by (simp add: ties_in_group_order_def stable_filter_mean)





section \<open>Selections the script accepts\<close>




text \<open>
  A table in which every row has the same age, and a table without any genre string, end
  the run with an error of the library, whatever the selection is.
\<close>

lemma app_raises:
  "app sort_values_stable [row_A]
     \<lparr>ss_age_range = None, ss_occupations = None, ss_genders = None\<rparr> = Inl StreamlitAPIException"
  "app sort_values_stable [row_N, row_N\<lparr>age := 3\<rparr>]
     \<lparr>ss_age_range = None, ss_occupations = None, ss_genders = None\<rparr> = Inl AttributeError"
  by code_simp+





section \<open>The empty filtered view\<close>

text \<open>
  C3. With the age range 30 to 35 no row of the two-row table passes the filter. The filter
  gives the empty view and the run succeeds, but only the genre breakdown reports that
  there is no data: the genre satisfaction is a bar plot of no rows, the yearly trend a line
  plot of no points, the top-rated movies two empty tables.
\<close>

theorem empty_view_outcomes:
  "app sort_values_stable [row_A, row_B]
     \<lparr>ss_age_range = Some (30, 35), ss_occupations = Some [''engineer'', ''teacher''],
      ss_genders = Some [''M'', ''F'']\<rparr>
   = Inr \<lparr>session = \<lparr>ss_age_range = Some (30, 35), ss_occupations = Some [''engineer'', ''teacher''],
                      ss_genders = Some [''M'', ''F'']\<rparr>,
          preview = [],
          view1 = Warning ''No data available for the selected filters.'',
          view2 = Barplot [],
          view3 = Line_plot [],
          view4 = (Dataframe [], Dataframe [])\<rparr>"
  by code_simp


end
